theory Spec2Isabelle
  imports Main "HOL-Library.Word" "HOL-Library.Char_ord" "HOL-Library.List_Lexorder"
begin

section \<open>Values shared by all components\<close>

text \<open>
  A Go \<^verbatim>\<open>[]byte\<close> holds bytes, a Go \<^verbatim>\<open>string\<close> is an immutable byte sequence.
  The conversions \<^verbatim>\<open>[]byte(s)\<close> and \<^verbatim>\<open>string(b)\<close> copy the bytes one by one.
\<close>

type_synonym byte = "8 word"
type_synonym bytes = "byte list"

definition bytes_of_string :: "string \<Rightarrow> bytes" where
  "bytes_of_string s = map of_char s"

definition string_of_bytes :: "bytes \<Rightarrow> string" where
  "string_of_bytes b = map (\<lambda>x. char_of (unat x)) b"

text \<open>
  Errors. \<^verbatim>\<open>errors.New(msg)\<close> and \<^verbatim>\<open>fmt.Errorf(msg)\<close> without a wrapping verb are
  \<open>ErrorString msg\<close>; \<^verbatim>\<open>fmt.Errorf("prefix: %w", err)\<close> is \<open>Wrapped ''prefix'' err\<close>.
  A function returning \<^verbatim>\<open>(T, error)\<close> is modelled with result type \<open>error + T\<close>, a function
  returning only \<^verbatim>\<open>error\<close> with \<open>error option\<close> (\<open>None\<close> is \<^verbatim>\<open>nil\<close>).
\<close>

datatype error = ErrorString string | Wrapped string error

subsection \<open>Memory and slices\<close>

text \<open>
  The vault keeps the slice it is given, not a copy, and writes through it when it locks.
  Memory is a flat array of bytes; a non-nil slice is a start address and a length, the nil
  slice is \<open>None\<close>.
\<close>

type_synonym heap = "nat \<Rightarrow> byte"

record slice =
  ptr :: nat
  len :: nat

definition slice_bytes :: "heap \<Rightarrow> slice option \<Rightarrow> bytes" where
  "slice_bytes h s = (case s of None \<Rightarrow> [] | Some sl \<Rightarrow> map h [ptr sl ..< ptr sl + len sl])"

definition slice_len :: "slice option \<Rightarrow> nat" where
  "slice_len s = (case s of None \<Rightarrow> 0 | Some sl \<Rightarrow> len sl)"

subsection \<open>The cipher strategy interface\<close>

text \<open>
  \<^verbatim>\<open>crypto.CryptoStrategy\<close> has two methods. Encryption may draw from the process's random
  source; the bytes that source still has to deliver are threaded through the call.
\<close>

record cryptoStrategy =
  strategy_Encrypt :: "bytes \<Rightarrow> string \<Rightarrow> bytes \<Rightarrow> (error + string) \<times> bytes"
  strategy_Decrypt :: "bytes \<Rightarrow> string \<Rightarrow> error + string"

datatype cipher_call = EncryptCall bytes string | DecryptCall bytes string

subsection \<open>Time\<close>

text \<open>
  A \<^verbatim>\<open>time.Time\<close> that went through JSON carries a wall-clock instant only; it is the number of
  nanoseconds since the epoch. A \<^verbatim>\<open>time.Duration\<close> is a signed 64-bit count of nanoseconds:
  \<^verbatim>\<open>Time.Sub\<close> saturates at the ends of that range and multiplication wraps around.
\<close>

type_synonym time = int

definition maxDuration :: int where
  "maxDuration = 2 ^ 63 - 1"

definition minDuration :: int where
  "minDuration = - (2 ^ 63)"

definition wrap64 :: "int \<Rightarrow> int" where
  "wrap64 x = (x + 2 ^ 63) mod 2 ^ 64 - 2 ^ 63"

definition time_Sub :: "time \<Rightarrow> time \<Rightarrow> int" where
  "time_Sub t u =
     (if t - u > maxDuration then maxDuration
      else if t - u < minDuration then minDuration
      else t - u)"

definition time_Since :: "time \<Rightarrow> time \<Rightarrow> int" where
  "time_Since now t = time_Sub now t"

definition Second :: int where
  "Second = 1000000000"

subsection \<open>The random source\<close>

text \<open>
  \<^verbatim>\<open>crypto/rand\<close> is a stream of bytes; \<open>src\<close> is what it still has to deliver. Filling a
  buffer of \<open>n\<close> bytes (\<^verbatim>\<open>rand.Read\<close>, \<^verbatim>\<open>io.ReadFull(rand.Reader, _)\<close>) takes the next \<open>n\<close>
  bytes, and fails when the source cannot deliver that many.
\<close>

definition ReadFull :: "nat \<Rightarrow> bytes \<Rightarrow> (error + bytes) \<times> bytes" where
  "ReadFull n src =
     (if length src < n then (Inl (ErrorString ''unexpected EOF''), [])
      else (Inr (take n src), drop n src))"

subsection \<open>Standard-library functions the code calls\<close>

text \<open>
  The Go standard library is not part of the repository. Its functions are parameters of the
  model: \<open>'c\<close> is a \<^verbatim>\<open>cipher.Block\<close>, \<open>'g\<close> a \<^verbatim>\<open>cipher.AEAD\<close>. \<open>Seal\<close> and \<open>Open\<close> take the
  nonce and the text (the code passes no additional data); \<open>Seal\<close> returns what the library
  appends to its destination argument.
\<close>

record ('c, 'g) crypto_lib =
  aes_NewCipher :: "bytes \<Rightarrow> error + 'c"
  cipher_NewGCM :: "'c \<Rightarrow> error + 'g"
  NonceSize :: "'g \<Rightarrow> nat"
  Seal :: "'g \<Rightarrow> bytes \<Rightarrow> bytes \<Rightarrow> bytes"
  Open :: "'g \<Rightarrow> bytes \<Rightarrow> bytes \<Rightarrow> error + bytes"
  RawStd_EncodeToString :: "bytes \<Rightarrow> string"
  RawStd_DecodeString :: "string \<Rightarrow> error + bytes"
  Std_EncodeToString :: "bytes \<Rightarrow> string"
  Std_DecodeString :: "string \<Rightarrow> error + bytes"

text \<open>
  What the library documents about these functions: \<^verbatim>\<open>aes.NewCipher\<close> accepts keys of 16, 24
  and 32 bytes and no others, \<^verbatim>\<open>cipher.NewGCM\<close> accepts every AES block cipher, opening what
  was sealed under the same nonce gives the text back, and decoding an encoding gives the
  bytes back.
\<close>

definition crypto_lib_ok :: "('c, 'g) crypto_lib \<Rightarrow> bool" where
  "crypto_lib_ok L =
     ((\<forall>k. (\<exists>c. aes_NewCipher L k = Inr c) \<longleftrightarrow> length k \<in> {16, 24, 32})
    \<and> (\<forall>c. \<exists>g. cipher_NewGCM L c = Inr g)
    \<and> (\<forall>g n p. length n = NonceSize L g \<longrightarrow> Open L g n (Seal L g n p) = Inr p)
    \<and> (\<forall>b. RawStd_DecodeString L (RawStd_EncodeToString L b) = Inr b)
    \<and> (\<forall>b. Std_DecodeString L (Std_EncodeToString L b) = Inr b))"

section \<open>AES-GCM strategy (internal/crypto/aes_gcm.go)\<close>

definition AESGCM_Encrypt ::
  "('c, 'g) crypto_lib \<Rightarrow> bytes \<Rightarrow> string \<Rightarrow> bytes \<Rightarrow> (error + string) \<times> bytes" where
  "AESGCM_Encrypt L k plaintext src =
     (case aes_NewCipher L k of
        Inl err \<Rightarrow> (Inl err, src)
      | Inr block \<Rightarrow>
          (case cipher_NewGCM L block of
             Inl err \<Rightarrow> (Inl err, src)
           | Inr aesgcm \<Rightarrow>
               (case ReadFull (NonceSize L aesgcm) src of
                  (Inl err, rest) \<Rightarrow> (Inl err, rest)
                | (Inr nonce, rest) \<Rightarrow>
                    (Inr (RawStd_EncodeToString L
                            (nonce @ Seal L aesgcm nonce (bytes_of_string plaintext))), rest))))"

definition AESGCM_Decrypt :: "('c, 'g) crypto_lib \<Rightarrow> bytes \<Rightarrow> string \<Rightarrow> error + string" where
  "AESGCM_Decrypt L k encoded =
     (case RawStd_DecodeString L encoded of
        Inl err \<Rightarrow> Inl err
      | Inr data \<Rightarrow>
          (case aes_NewCipher L k of
             Inl err \<Rightarrow> Inl err
           | Inr block \<Rightarrow>
               (case cipher_NewGCM L block of
                  Inl err \<Rightarrow> Inl err
                | Inr aesgcm \<Rightarrow>
                    (if length data < NonceSize L aesgcm
                     then Inl (ErrorString ''malformed ciphertext'')
                     else (case Open L aesgcm (take (NonceSize L aesgcm) data)
                                  (drop (NonceSize L aesgcm) data) of
                             Inl err \<Rightarrow> Inl err
                           | Inr plaintext \<Rightarrow> Inr (string_of_bytes plaintext))))))"

definition NewAESGCM :: "('c, 'g) crypto_lib \<Rightarrow> cryptoStrategy" where
  "NewAESGCM L = \<lparr>strategy_Encrypt = AESGCM_Encrypt L, strategy_Decrypt = AESGCM_Decrypt L\<rparr>"

section \<open>Key-value store (internal/db/boltdb, internal/db/base_repository.go)\<close>

subsection \<open>The bbolt library\<close>

text \<open>
  bbolt is not part of the repository. A bucket holds its keys in byte order, each once.
  \<^verbatim>\<open>Bucket.Put\<close> rejects an empty key, a key over 32768 bytes and a value over \<open>2^31 - 2\<close>
  bytes; \<^verbatim>\<open>Bucket.Get\<close> returns nil for a key that is not there; \<^verbatim>\<open>Bucket.Delete\<close> of a key
  that is not there does nothing and returns nil. \<^verbatim>\<open>DB.Update\<close> and \<^verbatim>\<open>DB.View\<close> fail on a
  database that is not open; \<^verbatim>\<open>DB.Update\<close> commits what its function did when the function
  returns nil and rolls it back otherwise.
\<close>

type_synonym bolt_bucket = "(string \<times> bytes) list"

record bolt_db =
  opened :: bool
  buckets :: "string \<rightharpoonup> bolt_bucket"

definition ErrDatabaseNotOpen :: error where
  "ErrDatabaseNotOpen = ErrorString ''database not open''"

fun bucket_insert :: "string \<Rightarrow> bytes \<Rightarrow> bolt_bucket \<Rightarrow> bolt_bucket" where
  "bucket_insert k v [] = [(k, v)]"
| "bucket_insert k v ((k', v') # b) =
     (if k = k' then (k, v) # b
      else if k < k' then (k, v) # (k', v') # b
      else (k', v') # bucket_insert k v b)"

definition bucket_Put :: "string \<Rightarrow> bytes \<Rightarrow> bolt_bucket \<Rightarrow> error + bolt_bucket" where
  "bucket_Put k v b =
     (if k = [] then Inl (ErrorString ''key required'')
      else if length k > 32768 then Inl (ErrorString ''key too large'')
      else if length v > 2147483646 then Inl (ErrorString ''value too large'')
      else Inr (bucket_insert k v b))"

definition bucket_Get :: "string \<Rightarrow> bolt_bucket \<Rightarrow> bytes option" where
  "bucket_Get k b = map_of b k"

definition bucket_Delete :: "string \<Rightarrow> bolt_bucket \<Rightarrow> error option \<times> bolt_bucket" where
  "bucket_Delete k b = (None, filter (\<lambda>kv. fst kv \<noteq> k) b)"

fun bucket_ForEach ::
  "(string \<Rightarrow> bytes \<Rightarrow> 's \<Rightarrow> error option \<times> 's) \<Rightarrow> bolt_bucket \<Rightarrow> 's \<Rightarrow> error option \<times> 's" where
  "bucket_ForEach fn [] s = (None, s)"
| "bucket_ForEach fn ((k, v) # b) s =
     (case fn k v s of
        (Some err, s1) \<Rightarrow> (Some err, s1)
      | (None, s1) \<Rightarrow> bucket_ForEach fn b s1)"

definition db_Update ::
  "((string \<rightharpoonup> bolt_bucket) \<Rightarrow> error option \<times> (string \<rightharpoonup> bolt_bucket)) \<Rightarrow> bolt_db
     \<Rightarrow> error option \<times> bolt_db" where
  "db_Update fn d =
     (if \<not> opened d then (Some ErrDatabaseNotOpen, d)
      else (case fn (buckets d) of
              (Some err, tx) \<Rightarrow> (Some err, d)
            | (None, tx) \<Rightarrow> (None, d\<lparr>buckets := tx\<rparr>)))"

definition db_View :: "((string \<rightharpoonup> bolt_bucket) \<Rightarrow> error + 'a) \<Rightarrow> bolt_db \<Rightarrow> error + 'a" where
  "db_View fn d = (if \<not> opened d then Inl ErrDatabaseNotOpen else fn (buckets d))"

subsection \<open>BoltStore\<close>

definition BoltStore_Put :: "string \<Rightarrow> string \<Rightarrow> bytes \<Rightarrow> bolt_db \<Rightarrow> error option \<times> bolt_db" where
  "BoltStore_Put bkt k v d =
     db_Update (\<lambda>tx. case tx bkt of
                  None \<Rightarrow> (Some (ErrorString ''bucket not found''), tx)
                | Some b \<Rightarrow> (case bucket_Put k v b of
                               Inl err \<Rightarrow> (Some err, tx)
                             | Inr b1 \<Rightarrow> (None, tx(bkt \<mapsto> b1)))) d"

definition BoltStore_Get :: "string \<Rightarrow> string \<Rightarrow> bolt_db \<Rightarrow> error + bytes" where
  "BoltStore_Get bkt k d =
     db_View (\<lambda>tx. case tx bkt of
                None \<Rightarrow> Inl (ErrorString ''bucket not found'')
              | Some b \<Rightarrow> (case bucket_Get k b of
                             None \<Rightarrow> Inl (ErrorString ''key not found'')
                           | Some v \<Rightarrow> Inr v)) d"

definition BoltStore_Delete :: "string \<Rightarrow> string \<Rightarrow> bolt_db \<Rightarrow> error option \<times> bolt_db" where
  "BoltStore_Delete bkt k d =
     db_Update (\<lambda>tx. case tx bkt of
                  None \<Rightarrow> (Some (ErrorString ''bucket not found''), tx)
                | Some b \<Rightarrow> (case bucket_Delete k b of
                               (err, b1) \<Rightarrow> (err, tx(bkt \<mapsto> b1)))) d"

definition BoltStore_ListKeys :: "string \<Rightarrow> bolt_db \<Rightarrow> error + string list" where
  "BoltStore_ListKeys bkt d =
     db_View (\<lambda>tx. case tx bkt of
                None \<Rightarrow> Inl (ErrorString ''bucket not found'')
              | Some b \<Rightarrow> (case bucket_ForEach (\<lambda>k v keys. (None, keys @ [k])) b [] of
                             (Some err, keys) \<Rightarrow> Inl err
                           | (None, keys) \<Rightarrow> Inr keys)) d"

definition BoltStore_Close :: "bolt_db \<Rightarrow> error option \<times> bolt_db" where
  "BoltStore_Close d = (None, d\<lparr>opened := False\<rparr>)"

subsection \<open>BaseRepository\<close>

record baseRepository =
  bucket :: string

definition BaseRepository_Put ::
  "baseRepository \<Rightarrow> string \<Rightarrow> bytes \<Rightarrow> bolt_db \<Rightarrow> error option \<times> bolt_db" where
  "BaseRepository_Put r k v d = BoltStore_Put (bucket r) k v d"

definition BaseRepository_Get :: "baseRepository \<Rightarrow> string \<Rightarrow> bolt_db \<Rightarrow> error + bytes" where
  "BaseRepository_Get r k d = BoltStore_Get (bucket r) k d"

definition BaseRepository_Delete ::
  "baseRepository \<Rightarrow> string \<Rightarrow> bolt_db \<Rightarrow> error option \<times> bolt_db" where
  "BaseRepository_Delete r k d = BoltStore_Delete (bucket r) k d"

definition BaseRepository_ListKeys :: "baseRepository \<Rightarrow> bolt_db \<Rightarrow> error + string list" where
  "BaseRepository_ListKeys r d = BoltStore_ListKeys (bucket r) d"

section \<open>Configuration (internal/config/config.go)\<close>

record config =
  SystemBucket :: string
  SecretsBucket :: string
  AutoLockSecs :: int

section \<open>Vault (internal/vault/vault.go)\<close>

definition saltKey :: string where
  "saltKey = ''salt''"

definition verificationTokenKey :: string where
  "verificationTokenKey = ''vault_verification''"

definition verificationTokenValue :: string where
  "verificationTokenValue = ''coconut-vault-v1-verification''"

record vault =
  strategy :: cryptoStrategy
  key :: "slice option"
  salt :: "slice option"
  unlocked :: bool

text \<open>
  The state of the process: memory, the random source, a log of the calls made to the vault's
  cipher strategy (the log is not in the source; it records which cipher operations a method
  performed), and the objects the factory shares between components: the vault, the open
  database and the live configuration.
\<close>

record world =
  mem :: heap
  entropy :: bytes
  cipher_log :: "cipher_call list"
  Vault :: vault
  DB :: bolt_db
  Config :: config

definition NewVault :: "cryptoStrategy \<Rightarrow> slice option \<Rightarrow> vault" where
  "NewVault st s = \<lparr>strategy = st, key = None, salt = s, unlocked = False\<rparr>"

definition Vault_Unlock :: "slice option \<Rightarrow> world \<Rightarrow> world" where
  "Vault_Unlock derivedKey w = w\<lparr>Vault := (Vault w)\<lparr>key := derivedKey, unlocked := True\<rparr>\<rparr>"

text \<open>The loop \<^verbatim>\<open>for i := range v.key { v.key[i] = 0 }\<close>, from index \<open>i\<close> on.\<close>

function zero_from :: "nat \<Rightarrow> slice \<Rightarrow> heap \<Rightarrow> heap" where
  "zero_from i sl h = (if i < len sl then zero_from (Suc i) sl (h(ptr sl + i := 0)) else h)"
  by pat_completeness auto
termination
  by (relation "measure (\<lambda>(i, sl, h). len sl - i)") auto

declare zero_from.simps [simp del]

definition Vault_Lock :: "world \<Rightarrow> world" where
  "Vault_Lock w =
     (let v1 = (Vault w)\<lparr>unlocked := False\<rparr>;
          m1 = (case key v1 of None \<Rightarrow> mem w | Some sl \<Rightarrow> zero_from 0 sl (mem w))
      in w\<lparr>mem := m1, Vault := v1\<lparr>key := None\<rparr>\<rparr>)"

definition Vault_IsUnlocked :: "world \<Rightarrow> bool" where
  "Vault_IsUnlocked w = unlocked (Vault w)"

definition call_Encrypt :: "bytes \<Rightarrow> string \<Rightarrow> world \<Rightarrow> (error + string) \<times> world" where
  "call_Encrypt k plaintext w =
     (case strategy_Encrypt (strategy (Vault w)) k plaintext (entropy w) of
        (r, rest) \<Rightarrow> (r, w\<lparr>entropy := rest, cipher_log := cipher_log w @ [EncryptCall k plaintext]\<rparr>))"

definition call_Decrypt :: "bytes \<Rightarrow> string \<Rightarrow> world \<Rightarrow> (error + string) \<times> world" where
  "call_Decrypt k ciphertext w =
     (strategy_Decrypt (strategy (Vault w)) k ciphertext,
      w\<lparr>cipher_log := cipher_log w @ [DecryptCall k ciphertext]\<rparr>)"

definition Vault_Encrypt :: "string \<Rightarrow> world \<Rightarrow> (error + string) \<times> world" where
  "Vault_Encrypt plaintext w =
     (if \<not> unlocked (Vault w) then (Inl (ErrorString ''vault locked''), w)
      else call_Encrypt (slice_bytes (mem w) (key (Vault w))) plaintext w)"

definition Vault_Decrypt :: "string \<Rightarrow> world \<Rightarrow> (error + string) \<times> world" where
  "Vault_Decrypt ciphertext w =
     (if \<not> unlocked (Vault w) then (Inl (ErrorString ''vault locked''), w)
      else call_Decrypt (slice_bytes (mem w) (key (Vault w))) ciphertext w)"

definition Vault_CreateVerificationToken :: "world \<Rightarrow> (error + string) \<times> world" where
  "Vault_CreateVerificationToken w =
     (if \<not> unlocked (Vault w)
      then (Inl (ErrorString ''vault must be unlocked to create verification token''), w)
      else Vault_Encrypt verificationTokenValue w)"

definition Vault_VerifyPassword :: "string \<Rightarrow> world \<Rightarrow> error option \<times> world" where
  "Vault_VerifyPassword encryptedToken w =
     (if \<not> unlocked (Vault w)
      then (Some (ErrorString ''vault must be unlocked to verify password''), w)
      else (case Vault_Decrypt encryptedToken w of
              (Inl err, w1) \<Rightarrow> (Some (ErrorString ''incorrect master password''), w1)
            | (Inr decrypted, w1) \<Rightarrow>
                (if decrypted \<noteq> verificationTokenValue
                 then (Some (ErrorString ''vault verification failed - possible corruption''), w1)
                 else (None, w1))))"

definition CheckVaultExists :: "baseRepository \<Rightarrow> world \<Rightarrow> bool" where
  "CheckVaultExists systemRepo w =
     (let saltv = (case BaseRepository_Get systemRepo saltKey (DB w) of
                     Inl err \<Rightarrow> [] | Inr v \<Rightarrow> v);
          token = (case BaseRepository_Get systemRepo verificationTokenKey (DB w) of
                     Inl err \<Rightarrow> [] | Inr v \<Rightarrow> v)
      in length saltv > 0 \<and> length token > 0)"

definition VerifyVaultPassword :: "baseRepository \<Rightarrow> world \<Rightarrow> error option \<times> world" where
  "VerifyVaultPassword systemRepo w =
     (case BaseRepository_Get systemRepo verificationTokenKey (DB w) of
        Inl err \<Rightarrow> (None, w)
      | Inr encryptedToken \<Rightarrow> Vault_VerifyPassword (string_of_bytes encryptedToken) w)"

section \<open>Secret records (internal/db/model/secret.go) and JSON\<close>

record secret =
  ID :: string
  Username :: string
  Password :: string
  URL :: string
  Description :: string
  CreatedAt :: time
  UpdatedAt :: time

record session =
  UnlockedAt :: time
  LastActivityAt :: time
  TimeoutSeconds :: int
  EncryptedKey :: string

text \<open>\<^verbatim>\<open>encoding/json\<close> at the two struct types the code serialises, as parameters.\<close>

record json_lib =
  Marshal_Secret :: "secret \<Rightarrow> error + bytes"
  Unmarshal_Secret :: "bytes \<Rightarrow> error + secret"
  Marshal_Session :: "session \<Rightarrow> error + bytes"
  Unmarshal_Session :: "bytes \<Rightarrow> error + session"

text \<open>Decoding what was encoded gives the value back.\<close>

definition json_lib_ok :: "json_lib \<Rightarrow> bool" where
  "json_lib_ok J =
     ((\<forall>s d. Marshal_Secret J s = Inr d \<longrightarrow> Unmarshal_Secret J d = Inr s)
    \<and> (\<forall>s d. Marshal_Session J s = Inr d \<longrightarrow> Unmarshal_Session J d = Inr s))"

section \<open>Encrypted record store (internal/db/encrypted_repository.go)\<close>

text \<open>
  The repository's \<^verbatim>\<open>repo\<close> field is the first argument \<open>r\<close>; its \<^verbatim>\<open>vault\<close> field points at
  the vault of the process state.
\<close>

definition EncryptedRepository_Add ::
  "json_lib \<Rightarrow> baseRepository \<Rightarrow> secret \<Rightarrow> world \<Rightarrow> (error + string) \<times> world" where
  "EncryptedRepository_Add J r s w =
     (if \<not> Vault_IsUnlocked w then (Inl (ErrorString ''vault is locked''), w)
      else (case Marshal_Secret J s of
              Inl err \<Rightarrow> (Inl (Wrapped ''marshal secret'' err), w)
            | Inr data \<Rightarrow>
                (case Vault_Encrypt (string_of_bytes data) w of
                   (Inl err, w1) \<Rightarrow> (Inl (Wrapped ''encrypt secret'' err), w1)
                 | (Inr enc, w1) \<Rightarrow>
                     (case BaseRepository_Put r (ID s) (bytes_of_string enc) (DB w1) of
                        (Some err, d) \<Rightarrow> (Inl (Wrapped ''store secret'' err), w1\<lparr>DB := d\<rparr>)
                      | (None, d) \<Rightarrow> (Inr (ID s), w1\<lparr>DB := d\<rparr>)))))"

definition EncryptedRepository_Get ::
  "json_lib \<Rightarrow> baseRepository \<Rightarrow> string \<Rightarrow> world \<Rightarrow> (error + secret) \<times> world" where
  "EncryptedRepository_Get J r k w =
     (if \<not> Vault_IsUnlocked w then (Inl (ErrorString ''vault is locked''), w)
      else (case BaseRepository_Get r k (DB w) of
              Inl err \<Rightarrow> (Inl err, w)
            | Inr data \<Rightarrow>
                (case Vault_Decrypt (string_of_bytes data) w of
                   (Inl err, w1) \<Rightarrow> (Inl (Wrapped ''decrypt secret'' err), w1)
                 | (Inr dec, w1) \<Rightarrow>
                     (case Unmarshal_Secret J (bytes_of_string dec) of
                        Inl err \<Rightarrow> (Inl (Wrapped ''unmarshal secret'' err), w1)
                      | Inr s \<Rightarrow> (Inr s, w1)))))"

definition EncryptedRepository_Update ::
  "json_lib \<Rightarrow> baseRepository \<Rightarrow> time \<Rightarrow> secret \<Rightarrow> world \<Rightarrow> error option \<times> world" where
  "EncryptedRepository_Update J r now s w =
     (if \<not> Vault_IsUnlocked w then (Some (ErrorString ''vault is locked''), w)
      else (let s1 = s\<lparr>UpdatedAt := now\<rparr> in
            case Marshal_Secret J s1 of
              Inl err \<Rightarrow> (Some (Wrapped ''marshal secret'' err), w)
            | Inr data \<Rightarrow>
                (case Vault_Encrypt (string_of_bytes data) w of
                   (Inl err, w1) \<Rightarrow> (Some (Wrapped ''encrypt secret'' err), w1)
                 | (Inr enc, w1) \<Rightarrow>
                     (case BaseRepository_Put r (ID s1) (bytes_of_string enc) (DB w1) of
                        (err, d) \<Rightarrow> (err, w1\<lparr>DB := d\<rparr>)))))"

definition EncryptedRepository_Delete ::
  "baseRepository \<Rightarrow> string \<Rightarrow> world \<Rightarrow> error option \<times> world" where
  "EncryptedRepository_Delete r k w =
     (case BaseRepository_Delete r k (DB w) of (err, d) \<Rightarrow> (err, w\<lparr>DB := d\<rparr>))"

text \<open>The loop of \<^verbatim>\<open>List\<close> over the keys still to load, with the records loaded so far.\<close>

fun List_loop ::
  "json_lib \<Rightarrow> baseRepository \<Rightarrow> string list \<Rightarrow> secret list \<Rightarrow> world
     \<Rightarrow> (error + secret list) \<times> world" where
  "List_loop J r [] secrets w = (Inr secrets, w)"
| "List_loop J r (k # ks) secrets w =
     (case EncryptedRepository_Get J r k w of
        (Inl err, w1) \<Rightarrow> (Inl (Wrapped (''failed to load secret '' @ k) err), w1)
      | (Inr s, w1) \<Rightarrow> List_loop J r ks (secrets @ [s]) w1)"

definition EncryptedRepository_List ::
  "json_lib \<Rightarrow> baseRepository \<Rightarrow> world \<Rightarrow> (error + secret list) \<times> world" where
  "EncryptedRepository_List J r w =
     (case BaseRepository_ListKeys r (DB w) of
        Inl err \<Rightarrow> (Inl err, w)
      | Inr keys \<Rightarrow> List_loop J r keys [] w)"

section \<open>Session manager (internal/session/session.go)\<close>

definition sessionDataKey :: string where
  "sessionDataKey = ''session:data''"

definition sessionKeyKey :: string where
  "sessionKeyKey = ''session:key''"

text \<open>
  The manager's \<^verbatim>\<open>repo\<close> field is the argument \<open>r\<close>, its \<^verbatim>\<open>cfg\<close> field points at the live
  configuration of the process state. \<open>now\<close> is what \<^verbatim>\<open>time.Now()\<close> returns during the call.
\<close>

definition Manager_saveSession ::
  "json_lib \<Rightarrow> baseRepository \<Rightarrow> session \<Rightarrow> world \<Rightarrow> error option \<times> world" where
  "Manager_saveSession J r s w =
     (case Marshal_Session J s of
        Inl err \<Rightarrow> (Some (Wrapped ''failed to marshal session'' err), w)
      | Inr data \<Rightarrow>
          (case BaseRepository_Put r sessionDataKey data (DB w) of
             (err, d) \<Rightarrow> (err, w\<lparr>DB := d\<rparr>)))"

definition Manager_loadSession :: "json_lib \<Rightarrow> baseRepository \<Rightarrow> world \<Rightarrow> error + session" where
  "Manager_loadSession J r w =
     (case BaseRepository_Get r sessionDataKey (DB w) of
        Inl err \<Rightarrow> Inl (Wrapped ''failed to read session'' err)
      | Inr data \<Rightarrow>
          (case Unmarshal_Session J data of
             Inl err \<Rightarrow> Inl (Wrapped ''failed to unmarshal session'' err)
           | Inr s \<Rightarrow> Inr s))"

definition Manager_saveSessionKey ::
  "baseRepository \<Rightarrow> bytes \<Rightarrow> world \<Rightarrow> error option \<times> world" where
  "Manager_saveSessionKey r k w =
     (case BaseRepository_Put r sessionKeyKey k (DB w) of (err, d) \<Rightarrow> (err, w\<lparr>DB := d\<rparr>))"

definition Manager_loadSessionKey :: "baseRepository \<Rightarrow> world \<Rightarrow> error + bytes" where
  "Manager_loadSessionKey r w =
     (case BaseRepository_Get r sessionKeyKey (DB w) of
        Inl err \<Rightarrow> Inl (Wrapped ''failed to read session key'' err)
      | Inr data \<Rightarrow> Inr data)"

definition Manager_CreateSession ::
  "('c, 'g) crypto_lib \<Rightarrow> json_lib \<Rightarrow> baseRepository \<Rightarrow> time \<Rightarrow> bytes \<Rightarrow> world
     \<Rightarrow> error option \<times> world" where
  "Manager_CreateSession L J r now vaultKey w =
     (case ReadFull 32 (entropy w) of
        (Inl err, rest) \<Rightarrow>
          (Some (Wrapped ''failed to generate session key'' err), w\<lparr>entropy := rest\<rparr>)
      | (Inr sessionKey, rest) \<Rightarrow>
          (case AESGCM_Encrypt L sessionKey (Std_EncodeToString L vaultKey) rest of
             (Inl err, rest1) \<Rightarrow>
               (Some (Wrapped ''failed to encrypt vault key'' err), w\<lparr>entropy := rest1\<rparr>)
           | (Inr encryptedKey, rest1) \<Rightarrow>
               (case Manager_saveSession J r
                       \<lparr>UnlockedAt = now, LastActivityAt = now,
                        TimeoutSeconds = AutoLockSecs (Config w),
                        EncryptedKey = encryptedKey\<rparr> (w\<lparr>entropy := rest1\<rparr>) of
                  (Some err, w1) \<Rightarrow> (Some err, w1)
                | (None, w1) \<Rightarrow>
                    (case Manager_saveSessionKey r sessionKey w1 of
                       (Some err, w2) \<Rightarrow> (Some err, w2)
                     | (None, w2) \<Rightarrow> (None, w2)))))"

definition effectiveTimeoutSeconds :: "session \<Rightarrow> world \<Rightarrow> int" where
  "effectiveTimeoutSeconds s w =
     (if AutoLockSecs (Config w) > 0 \<and> AutoLockSecs (Config w) < TimeoutSeconds s
      then AutoLockSecs (Config w) else TimeoutSeconds s)"

definition Manager_IsValid :: "json_lib \<Rightarrow> baseRepository \<Rightarrow> time \<Rightarrow> world \<Rightarrow> bool" where
  "Manager_IsValid J r now w =
     (case Manager_loadSession J r w of
        Inl err \<Rightarrow> False
      | Inr s \<Rightarrow>
          time_Since now (LastActivityAt s) < wrap64 (effectiveTimeoutSeconds s w * Second))"

definition Manager_UpdateActivity ::
  "json_lib \<Rightarrow> baseRepository \<Rightarrow> time \<Rightarrow> world \<Rightarrow> error option \<times> world" where
  "Manager_UpdateActivity J r now w =
     (case Manager_loadSession J r w of
        Inl err \<Rightarrow> (Some (Wrapped ''no active session to update'' err), w)
      | Inr s \<Rightarrow> Manager_saveSession J r (s\<lparr>LastActivityAt := now\<rparr>) w)"

definition Manager_GetCachedKey ::
  "('c, 'g) crypto_lib \<Rightarrow> json_lib \<Rightarrow> baseRepository \<Rightarrow> time \<Rightarrow> world \<Rightarrow> error + bytes" where
  "Manager_GetCachedKey L J r now w =
     (if \<not> Manager_IsValid J r now w then Inl (ErrorString ''session expired or invalid'')
      else (case Manager_loadSession J r w of
              Inl err \<Rightarrow> Inl err
            | Inr s \<Rightarrow>
                (case Manager_loadSessionKey r w of
                   Inl err \<Rightarrow> Inl (Wrapped ''failed to load session key'' err)
                 | Inr sessionKey \<Rightarrow>
                     (case AESGCM_Decrypt L sessionKey (EncryptedKey s) of
                        Inl err \<Rightarrow> Inl (Wrapped ''failed to decrypt vault key'' err)
                      | Inr decryptedStr \<Rightarrow>
                          (case Std_DecodeString L decryptedStr of
                             Inl err \<Rightarrow> Inl (Wrapped ''failed to decode vault key'' err)
                           | Inr vaultKey \<Rightarrow> Inr vaultKey)))))"

definition Manager_Clear :: "baseRepository \<Rightarrow> world \<Rightarrow> error option \<times> world" where
  "Manager_Clear r w =
     (let d1 = snd (BaseRepository_Delete r sessionDataKey (DB w));
          d2 = snd (BaseRepository_Delete r sessionKeyKey d1)
      in (None, w\<lparr>DB := d2\<rparr>))"

section \<open>Test doubles and sample states\<close>

text \<open>The cipher double of vault_test.go (\<^verbatim>\<open>mockCrypto\<close> with no function field set).\<close>

definition mockCrypto :: cryptoStrategy where
  "mockCrypto =
     \<lparr>strategy_Encrypt = (\<lambda>k plaintext rest. (Inr (''encrypted:'' @ plaintext), rest)),
      strategy_Decrypt = (\<lambda>k ciphertext.
         if length ciphertext > 10 \<and> take 10 ciphertext = ''encrypted:''
         then Inr (drop 10 ciphertext) else Inl (ErrorString ''invalid ciphertext''))\<rparr>"

text \<open>
  A process state as the factory builds it: both buckets created and empty, the default
  configuration, nothing logged.
\<close>

definition test_world :: "vault \<Rightarrow> world" where
  "test_world v =
     \<lparr>mem = (\<lambda>a. 7), entropy = [], cipher_log = [], Vault = v,
      DB = \<lparr>opened = True, buckets = [''system'' \<mapsto> [], ''secrets'' \<mapsto> []]\<rparr>,
      Config = \<lparr>SystemBucket = ''system'', SecretsBucket = ''secrets'', AutoLockSecs = 300\<rparr>\<rparr>"

text \<open>
  Stand-ins for the standard library, small enough to evaluate: a cipher that reverses the
  text and appends a tag taken from the key, encodings that map each byte to one character,
  and a serialisation of sessions and secrets as length-prefixed fields (numbers in base 128,
  low digits first).
\<close>

definition demo_crypto :: "(bytes, bytes) crypto_lib" where
  "demo_crypto =
     \<lparr>aes_NewCipher = (\<lambda>k. if length k \<in> {16, 24, 32} then Inr k
                            else Inl (ErrorString ''crypto/aes: invalid key size'')),
      cipher_NewGCM = (\<lambda>c. Inr c),
      NonceSize = (\<lambda>g. 12),
      Seal = (\<lambda>g n p. rev p @ take 16 g),
      Open = (\<lambda>g n c.
         if length (take 16 g) \<le> length c
            \<and> drop (length c - length (take 16 g)) c = take 16 g
         then Inr (rev (take (length c - length (take 16 g)) c))
         else Inl (ErrorString ''cipher: message authentication failed'')),
      RawStd_EncodeToString = string_of_bytes,
      RawStd_DecodeString = (\<lambda>s. Inr (bytes_of_string s)),
      Std_EncodeToString = string_of_bytes,
      Std_DecodeString = (\<lambda>s. Inr (bytes_of_string s))\<rparr>"

function enc_nat :: "nat \<Rightarrow> bytes" where
  "enc_nat n = (if n < 128 then [of_nat n] else of_nat (128 + n mod 128) # enc_nat (n div 128))"
  by pat_completeness auto
termination
  by (relation "measure (\<lambda>n. n)") auto

declare enc_nat.simps [simp del]

fun dec_nat :: "bytes \<Rightarrow> (nat \<times> bytes) option" where
  "dec_nat [] = None"
| "dec_nat (b # bs) =
     (if unat b < 128 then Some (unat b, bs)
      else (case dec_nat bs of
              None \<Rightarrow> None
            | Some (m, rest) \<Rightarrow> Some (unat b - 128 + 128 * m, rest)))"

definition enc_int :: "int \<Rightarrow> bytes" where
  "enc_int i = (if i < 0 then 1 else 0) # enc_nat (nat \<bar>i\<bar>)"

definition dec_int :: "bytes \<Rightarrow> (int \<times> bytes) option" where
  "dec_int d =
     (case d of
        [] \<Rightarrow> None
      | s # bs \<Rightarrow> (case dec_nat bs of
                      None \<Rightarrow> None
                    | Some (m, rest) \<Rightarrow> Some (if s = 1 then - int m else int m, rest)))"

definition enc_str :: "string \<Rightarrow> bytes" where
  "enc_str s = enc_nat (length s) @ bytes_of_string s"

definition dec_str :: "bytes \<Rightarrow> (string \<times> bytes) option" where
  "dec_str d =
     (case dec_nat d of
        None \<Rightarrow> None
      | Some (n, rest) \<Rightarrow>
          (if length rest < n then None
           else Some (string_of_bytes (take n rest), drop n rest)))"

definition enc_session :: "session \<Rightarrow> bytes" where
  "enc_session s =
     enc_int (UnlockedAt s) @ enc_int (LastActivityAt s) @ enc_int (TimeoutSeconds s)
       @ enc_str (EncryptedKey s)"

definition dec_session :: "bytes \<Rightarrow> error + session" where
  "dec_session d =
     (case dec_int d of
        None \<Rightarrow> Inl (ErrorString ''unexpected end of JSON input'')
      | Some (a, d1) \<Rightarrow>
     (case dec_int d1 of
        None \<Rightarrow> Inl (ErrorString ''unexpected end of JSON input'')
      | Some (b, d2) \<Rightarrow>
     (case dec_int d2 of
        None \<Rightarrow> Inl (ErrorString ''unexpected end of JSON input'')
      | Some (c, d3) \<Rightarrow>
     (case dec_str d3 of
        None \<Rightarrow> Inl (ErrorString ''unexpected end of JSON input'')
      | Some (e, d4) \<Rightarrow>
          (if d4 = []
           then Inr \<lparr>UnlockedAt = a, LastActivityAt = b, TimeoutSeconds = c, EncryptedKey = e\<rparr>
           else Inl (ErrorString ''invalid character after top-level value''))))))"

definition enc_secret :: "secret \<Rightarrow> bytes" where
  "enc_secret s =
     enc_str (ID s) @ enc_str (Username s) @ enc_str (Password s) @ enc_str (URL s)
       @ enc_str (Description s) @ enc_int (CreatedAt s) @ enc_int (UpdatedAt s)"

definition dec_secret :: "bytes \<Rightarrow> error + secret" where
  "dec_secret d =
     (case dec_str d of
        None \<Rightarrow> Inl (ErrorString ''unexpected end of JSON input'')
      | Some (a, d1) \<Rightarrow>
     (case dec_str d1 of
        None \<Rightarrow> Inl (ErrorString ''unexpected end of JSON input'')
      | Some (b, d2) \<Rightarrow>
     (case dec_str d2 of
        None \<Rightarrow> Inl (ErrorString ''unexpected end of JSON input'')
      | Some (c, d3) \<Rightarrow>
     (case dec_str d3 of
        None \<Rightarrow> Inl (ErrorString ''unexpected end of JSON input'')
      | Some (e, d4) \<Rightarrow>
     (case dec_str d4 of
        None \<Rightarrow> Inl (ErrorString ''unexpected end of JSON input'')
      | Some (f, d5) \<Rightarrow>
     (case dec_int d5 of
        None \<Rightarrow> Inl (ErrorString ''unexpected end of JSON input'')
      | Some (g, d6) \<Rightarrow>
     (case dec_int d6 of
        None \<Rightarrow> Inl (ErrorString ''unexpected end of JSON input'')
      | Some (h, d7) \<Rightarrow>
          (if d7 = []
           then Inr \<lparr>ID = a, Username = b, Password = c, URL = e, Description = f,
                     CreatedAt = g, UpdatedAt = h\<rparr>
           else Inl (ErrorString ''invalid character after top-level value'')))))))))"

definition demo_json :: json_lib where
  "demo_json =
     \<lparr>Marshal_Secret = (\<lambda>s. Inr (enc_secret s)), Unmarshal_Secret = dec_secret,
      Marshal_Session = (\<lambda>s. Inr (enc_session s)), Unmarshal_Session = dec_session\<rparr>"

text \<open>
  The repositories the factory creates, a vault unlocked with a 32-byte key, and the record
  of the spec's end-to-end scenario.
\<close>

definition systemRepo :: baseRepository where
  "systemRepo = \<lparr>bucket = ''system''\<rparr>"

definition secretsRepo :: baseRepository where
  "secretsRepo = \<lparr>bucket = ''secrets''\<rparr>"

definition unlocked_world :: world where
  "unlocked_world = Vault_Unlock (Some \<lparr>ptr = 0, len = 32\<rparr>) (test_world (NewVault mockCrypto None))"

definition alice :: secret where
  "alice = \<lparr>ID = ''id-1'', Username = ''alice'', Password = ''p1'', URL = [], Description = [],
             CreatedAt = 5, UpdatedAt = 5\<rparr>"

text \<open>
  The store after adding that record, and a store whose only entry does not decrypt.
\<close>

definition alice_world :: world where
  "alice_world = snd (EncryptedRepository_Add demo_json secretsRepo alice unlocked_world)"

definition corrupt_world :: world where
  "corrupt_world =
     unlocked_world\<lparr>DB := (DB unlocked_world)
       \<lparr>buckets := (buckets (DB unlocked_world))
          (''secrets'' \<mapsto> [(''bad'', bytes_of_string ''garbage'')])\<rparr>\<rparr>"

text \<open>Sequences of calls on the vault.\<close>

datatype vault_call =
  CallNewVault cryptoStrategy "slice option" | CallUnlock "slice option" | CallLock

fun vault_step :: "vault_call \<Rightarrow> world \<Rightarrow> world" where
  "vault_step (CallNewVault st s) w = w\<lparr>Vault := NewVault st s\<rparr>"
| "vault_step (CallUnlock k) w = Vault_Unlock k w"
| "vault_step CallLock w = Vault_Lock w"

fun unlock_key_ok :: "vault_call \<Rightarrow> bool" where
  "unlock_key_ok (CallUnlock k) = (case k of None \<Rightarrow> False | Some sl \<Rightarrow> len sl = 32)"
| "unlock_key_ok _ = True"

definition vault_inv :: "world \<Rightarrow> bool" where
  "vault_inv w =
     (if unlocked (Vault w)
      then (case key (Vault w) of None \<Rightarrow> False | Some sl \<Rightarrow> len sl = 32)
      else key (Vault w) = None)"

section \<open>Vault: lock state and key lifecycle\<close>

lemma zero_from_eq:
  "zero_from i sl h a = (if ptr sl + i \<le> a \<and> a < ptr sl + len sl then 0 else h a)"
proof (induction i sl h rule: zero_from.induct)
  case (1 i sl h)
  show ?case
  proof (cases "i < len sl")
    case True
    have "zero_from i sl h a = zero_from (Suc i) sl (h(ptr sl + i := 0)) a"
      using True by (subst zero_from.simps) simp
    also have "\<dots> = (if ptr sl + Suc i \<le> a \<and> a < ptr sl + len sl then 0
                       else (h(ptr sl + i := 0)) a)"
      by (rule 1 [OF True])
    also have "\<dots> = (if ptr sl + i \<le> a \<and> a < ptr sl + len sl then 0 else h a)"
      using True by auto
    finally show ?thesis .
  next
    case False
    then show ?thesis by (subst zero_from.simps) auto
  qed
qed

text \<open>
  Claim C5. On an unlocked vault, \<^verbatim>\<open>VerifyPassword\<close> returns nil exactly when the strategy
  decrypts the token to the verification constant, returns the error "incorrect master
  password" exactly when decryption fails, and returns the error "vault verification failed -
  possible corruption" exactly when decryption succeeds with any other plaintext.
\<close>

theorem VerifyPassword_trichotomy:
  assumes "unlocked (Vault w)"
  shows "(fst (Vault_VerifyPassword t w) = None \<longleftrightarrow>
            strategy_Decrypt (strategy (Vault w)) (slice_bytes (mem w) (key (Vault w))) t
              = Inr verificationTokenValue)
       \<and> (fst (Vault_VerifyPassword t w) = Some (ErrorString ''incorrect master password'') \<longleftrightarrow>
            (\<exists>e. strategy_Decrypt (strategy (Vault w)) (slice_bytes (mem w) (key (Vault w))) t = Inl e))
       \<and> (fst (Vault_VerifyPassword t w)
             = Some (ErrorString ''vault verification failed - possible corruption'') \<longleftrightarrow>
            (\<exists>p. strategy_Decrypt (strategy (Vault w)) (slice_bytes (mem w) (key (Vault w))) t = Inr p
                 \<and> p \<noteq> verificationTokenValue))"
  using assms
  by (cases "strategy_Decrypt (strategy (Vault w)) (slice_bytes (mem w) (key (Vault w))) t")
     (auto simp: Vault_VerifyPassword_def Vault_Decrypt_def call_Decrypt_def)

text \<open>
  Claim C4. On a locked vault each of \<^verbatim>\<open>Encrypt\<close>, \<^verbatim>\<open>Decrypt\<close>,
  \<^verbatim>\<open>CreateVerificationToken\<close> and \<^verbatim>\<open>VerifyPassword\<close> returns its vault-locked error and leaves
  the whole process state as it was: the vault is unchanged and no call to the cipher strategy
  is logged.
\<close>

theorem lock_gating:
  assumes "\<not> unlocked (Vault w)"
  shows "Vault_Encrypt p w = (Inl (ErrorString ''vault locked''), w)
       \<and> Vault_Decrypt c w = (Inl (ErrorString ''vault locked''), w)
       \<and> Vault_CreateVerificationToken w
           = (Inl (ErrorString ''vault must be unlocked to create verification token''), w)
       \<and> Vault_VerifyPassword t w
           = (Some (ErrorString ''vault must be unlocked to verify password''), w)"
  using assms
  by (simp add: Vault_Encrypt_def Vault_Decrypt_def Vault_CreateVerificationToken_def
      Vault_VerifyPassword_def)


theorem VerifyPassword_trichotomy_witness:
  "unlocked (Vault (Vault_Unlock (Some \<lparr>ptr = 0, len = 32\<rparr>) (test_world (NewVault mockCrypto None))))
   \<and> fst (Vault_VerifyPassword ''encrypted:coconut-vault-v1-verification''
         (Vault_Unlock (Some \<lparr>ptr = 0, len = 32\<rparr>) (test_world (NewVault mockCrypto None)))) = None
   \<and> fst (Vault_VerifyPassword ''garbage''
         (Vault_Unlock (Some \<lparr>ptr = 0, len = 32\<rparr>) (test_world (NewVault mockCrypto None))))
       = Some (ErrorString ''incorrect master password'')
   \<and> fst (Vault_VerifyPassword ''encrypted:wrong-value''
         (Vault_Unlock (Some \<lparr>ptr = 0, len = 32\<rparr>) (test_world (NewVault mockCrypto None))))
       = Some (ErrorString ''vault verification failed - possible corruption'')"
proof -
  let ?w = "Vault_Unlock (Some \<lparr>ptr = 0, len = 32\<rparr>) (test_world (NewVault mockCrypto None))"
  have h: "unlocked (Vault ?w)"
    by (simp add: Vault_Unlock_def)
  show ?thesis
    using h VerifyPassword_trichotomy [OF h, of "''encrypted:coconut-vault-v1-verification''"]
      VerifyPassword_trichotomy [OF h, of "''garbage''"]
      VerifyPassword_trichotomy [OF h, of "''encrypted:wrong-value''"]
    by (simp add: Vault_Unlock_def test_world_def NewVault_def mockCrypto_def
        verificationTokenValue_def)
qed

theorem lock_gating_witness:
  "\<not> unlocked (Vault (test_world (NewVault mockCrypto None)))
   \<and> Vault_Encrypt ''secret'' (test_world (NewVault mockCrypto None))
       = (Inl (ErrorString ''vault locked''), test_world (NewVault mockCrypto None))
   \<and> cipher_log (snd (Vault_Decrypt ''encrypted:x'' (test_world (NewVault mockCrypto None)))) = []"
proof -
  have h: "\<not> unlocked (Vault (test_world (NewVault mockCrypto None)))"
    by (simp add: test_world_def NewVault_def)
  show ?thesis
    using h lock_gating [OF h, of "''secret''" "''encrypted:x''"]
    by (simp add: test_world_def)
qed

lemma vault_step_inv:
  "unlock_key_ok c \<Longrightarrow> vault_inv w \<Longrightarrow> vault_inv (vault_step c w)"
  by (cases c)
     (auto simp: vault_inv_def Vault_Unlock_def Vault_Lock_def NewVault_def Let_def
           split: option.splits)

lemma fold_vault_step_inv:
  "list_all unlock_key_ok cs \<Longrightarrow> vault_inv w \<Longrightarrow> vault_inv (fold vault_step cs w)"
  by (induction cs arbitrary: w) (simp_all add: vault_step_inv)

lemma Vault_Lock_idem: "Vault_Lock (Vault_Lock w) = Vault_Lock w"
  by (simp add: Vault_Lock_def Let_def)

lemma Vault_Lock_zeroes:
  "key (Vault w) = Some sl \<Longrightarrow> ptr sl \<le> a \<Longrightarrow> a < ptr sl + len sl
   \<Longrightarrow> mem (Vault_Lock w) a = 0"
  by (simp add: Vault_Lock_def Let_def zero_from_eq)

text \<open>
  Claim C3, as amended. \<^verbatim>\<open>Unlock\<close> installs whatever slice it is given, so the invariant
  holds for the call sequences in which every key passed to \<^verbatim>\<open>Unlock\<close> is non-nil and 32
  bytes long: then an unlocked vault holds a non-nil key of 32 bytes. In every state \<^verbatim>\<open>Lock\<close>
  clears the flag, writes zero to every byte of the slice the vault held, drops the
  reference, and locking twice is the same as locking once.
\<close>

theorem vault_state_invariant:
  assumes "list_all unlock_key_ok cs"
  shows "(unlocked (Vault (fold vault_step cs (w\<lparr>Vault := NewVault st s\<rparr>))) \<longrightarrow>
            (\<exists>sl. key (Vault (fold vault_step cs (w\<lparr>Vault := NewVault st s\<rparr>))) = Some sl
                  \<and> len sl = 32))
       \<and> \<not> unlocked (Vault (Vault_Lock u))
       \<and> key (Vault (Vault_Lock u)) = None
       \<and> (\<forall>sl a. key (Vault u) = Some sl \<and> ptr sl \<le> a \<and> a < ptr sl + len sl
              \<longrightarrow> mem (Vault_Lock u) a = 0)
       \<and> Vault_Lock (Vault_Lock u) = Vault_Lock u"
proof -
  have "vault_inv (w\<lparr>Vault := NewVault st s\<rparr>)"
    by (simp add: vault_inv_def NewVault_def)
  with assms have "vault_inv (fold vault_step cs (w\<lparr>Vault := NewVault st s\<rparr>))"
    by (rule fold_vault_step_inv)
  then have inv: "unlocked (Vault (fold vault_step cs (w\<lparr>Vault := NewVault st s\<rparr>))) \<longrightarrow>
            (\<exists>sl. key (Vault (fold vault_step cs (w\<lparr>Vault := NewVault st s\<rparr>))) = Some sl
                  \<and> len sl = 32)"
    by (auto simp: vault_inv_def split: option.splits if_splits)
  have lock: "\<not> unlocked (Vault (Vault_Lock u)) \<and> key (Vault (Vault_Lock u)) = None"
    by (simp add: Vault_Lock_def Let_def)
  from inv lock show ?thesis
    using Vault_Lock_idem [of u] Vault_Lock_zeroes [of u] by blast
qed

text \<open>
  Claim C3 as stated fails: after \<^verbatim>\<open>NewVault\<close> and \<^verbatim>\<open>Unlock(nil)\<close> the vault is unlocked and
  its key is nil.
\<close>

theorem vault_unlock_nil_counterexample:
  "\<not> (unlocked (Vault (fold vault_step [CallNewVault mockCrypto None, CallUnlock None]
                        (test_world (NewVault mockCrypto None)))) \<longrightarrow>
       (\<exists>sl. key (Vault (fold vault_step [CallNewVault mockCrypto None, CallUnlock None]
                        (test_world (NewVault mockCrypto None)))) = Some sl \<and> len sl = 32))"
  by (simp add: Vault_Unlock_def)

theorem vault_state_invariant_witness:
  "list_all unlock_key_ok [CallUnlock (Some \<lparr>ptr = 4, len = 32\<rparr>), CallLock,
                           CallUnlock (Some \<lparr>ptr = 40, len = 32\<rparr>)]
   \<and> key (Vault (fold vault_step [CallUnlock (Some \<lparr>ptr = 4, len = 32\<rparr>), CallLock,
                           CallUnlock (Some \<lparr>ptr = 40, len = 32\<rparr>)]
                   ((test_world (NewVault mockCrypto None))\<lparr>Vault := NewVault mockCrypto None\<rparr>)))
       = Some \<lparr>ptr = 40, len = 32\<rparr>
   \<and> mem (Vault_Lock (Vault_Unlock (Some \<lparr>ptr = 4, len = 32\<rparr>)
                          (test_world (NewVault mockCrypto None)))) 35 = 0
   \<and> mem (Vault_Lock (Vault_Unlock (Some \<lparr>ptr = 4, len = 32\<rparr>)
                          (test_world (NewVault mockCrypto None)))) 36 = 7"
proof -
  let ?cs = "[CallUnlock (Some \<lparr>ptr = 4, len = 32\<rparr>), CallLock,
              CallUnlock (Some \<lparr>ptr = 40, len = 32\<rparr>)]"
  let ?u = "Vault_Unlock (Some \<lparr>ptr = 4, len = 32\<rparr>) (test_world (NewVault mockCrypto None))"
  have h: "list_all unlock_key_ok ?cs" by simp
  have k: "key (Vault ?u) = Some \<lparr>ptr = 4, len = 32\<rparr>"
    by (simp add: Vault_Unlock_def)
  have out: "mem (Vault_Lock ?u) 36 = 7"
    by (simp add: Vault_Lock_def Vault_Unlock_def Let_def test_world_def zero_from_eq)
  show ?thesis
    using h k out
      vault_state_invariant [OF h, where w = "test_world (NewVault mockCrypto None)"
          and st = mockCrypto and s = None and u = ?u]
    by (simp add: Vault_Unlock_def Vault_Lock_def Let_def)
qed

lemma char_of_unat_of_char: "char_of (unat (of_char c :: byte)) = c"
proof -
  have "unat (of_char c :: byte) = unat (of_nat (of_char c) :: byte)"
    by (simp only: of_nat_of_char)
  also have "\<dots> = of_char c"
    by (simp add: unat_of_nat)
  finally show ?thesis by simp
qed

lemma string_of_bytes_of_string: "string_of_bytes (bytes_of_string s) = s"
  by (simp add: string_of_bytes_def bytes_of_string_def o_def char_of_unat_of_char)

lemma of_char_char_of_unat: "(of_char (char_of (unat (x :: byte))) :: byte) = x"
proof -
  have "(of_char (char_of (unat x)) :: nat) = unat x mod 256"
    by (rule of_char_of)
  moreover have "unat x < 256"
    using unsigned_less [of x] by simp
  ultimately have "(of_char (char_of (unat x)) :: nat) = unat x" by simp
  then have "(of_nat (of_char (char_of (unat x))) :: byte) = of_nat (unat x)" by simp
  then show ?thesis by (simp only: of_nat_of_char of_nat_unat ucast_id)
qed

lemma bytes_of_string_of_bytes: "bytes_of_string (string_of_bytes b) = b"
  by (simp add: string_of_bytes_def bytes_of_string_def o_def of_char_char_of_unat)

lemma ReadFull_length:
  "ReadFull n src = (Inr nonce, rest) \<Longrightarrow> length nonce = n \<and> src = nonce @ rest"
  by (auto simp: ReadFull_def split: if_splits)

lemma AESGCM_Encrypt_Inr:
  assumes "AESGCM_Encrypt L k plaintext src = (Inr ct, rest)"
  shows "\<exists>c g nonce. aes_NewCipher L k = Inr c \<and> cipher_NewGCM L c = Inr g
           \<and> ReadFull (NonceSize L g) src = (Inr nonce, rest)
           \<and> ct = RawStd_EncodeToString L (nonce @ Seal L g nonce (bytes_of_string plaintext))"
  using assms
  by (auto simp: AESGCM_Encrypt_def split: sum.splits prod.splits)

theorem AESGCM_round_trip:
  assumes "crypto_lib_ok L" and "length k \<in> {16, 24, 32}"
  shows "(\<forall>ct rest. AESGCM_Encrypt L k plaintext src = (Inr ct, rest)
             \<longrightarrow> AESGCM_Decrypt L k ct = Inr plaintext)
       \<and> (\<forall>c g. aes_NewCipher L k = Inr c \<and> cipher_NewGCM L c = Inr g
               \<and> NonceSize L g \<le> length src
             \<longrightarrow> (\<exists>ct rest. AESGCM_Encrypt L k plaintext src = (Inr ct, rest)))"
proof (intro conjI allI impI)
  fix ct rest
  assume enc: "AESGCM_Encrypt L k plaintext src = (Inr ct, rest)"
  from AESGCM_Encrypt_Inr [OF enc] obtain c g nonce where
    c: "aes_NewCipher L k = Inr c" and g: "cipher_NewGCM L c = Inr g"
    and rd: "ReadFull (NonceSize L g) src = (Inr nonce, rest)"
    and ct: "ct = RawStd_EncodeToString L (nonce @ Seal L g nonce (bytes_of_string plaintext))"
    by blast
  from ReadFull_length [OF rd] have n: "length nonce = NonceSize L g" by simp
  from assms(1) have dec: "RawStd_DecodeString L ct
      = Inr (nonce @ Seal L g nonce (bytes_of_string plaintext))"
    by (simp add: crypto_lib_ok_def ct)
  from assms(1) n have op: "Open L g nonce (Seal L g nonce (bytes_of_string plaintext))
      = Inr (bytes_of_string plaintext)"
    by (simp add: crypto_lib_ok_def)
  show "AESGCM_Decrypt L k ct = Inr plaintext"
    by (simp add: AESGCM_Decrypt_def dec c g n op string_of_bytes_of_string)
next
  fix c g
  assume "aes_NewCipher L k = Inr c \<and> cipher_NewGCM L c = Inr g \<and> NonceSize L g \<le> length src"
  then show "\<exists>ct rest. AESGCM_Encrypt L k plaintext src = (Inr ct, rest)"
    by (simp add: AESGCM_Encrypt_def ReadFull_def)
qed

theorem VerifyVaultPassword_result:
  "(\<forall>err. BaseRepository_Get systemRepo verificationTokenKey (DB w) = Inl err
       \<longrightarrow> VerifyVaultPassword systemRepo w = (None, w))
 \<and> (\<forall>tok. BaseRepository_Get systemRepo verificationTokenKey (DB w) = Inr tok
       \<longrightarrow> VerifyVaultPassword systemRepo w = Vault_VerifyPassword (string_of_bytes tok) w)"
  by (simp add: VerifyVaultPassword_def)

theorem VerifyVaultPassword_counterexample:
  "BaseRepository_Get \<lparr>bucket = ''system''\<rparr> verificationTokenKey
      (DB (Vault_Unlock (Some \<lparr>ptr = 0, len = 32\<rparr>) (test_world (NewVault mockCrypto None))))
     = Inl (ErrorString ''key not found'')
   \<and> fst (VerifyVaultPassword \<lparr>bucket = ''system''\<rparr>
        (Vault_Unlock (Some \<lparr>ptr = 0, len = 32\<rparr>) (test_world (NewVault mockCrypto None)))) = None"
  by (simp add: VerifyVaultPassword_def BaseRepository_Get_def BoltStore_Get_def db_View_def
      Vault_Unlock_def test_world_def bucket_Get_def)

lemma demo_crypto_ok: "crypto_lib_ok demo_crypto"
  by (auto simp: crypto_lib_ok_def demo_crypto_def bytes_of_string_of_bytes)

lemma dec_enc_nat: "dec_nat (enc_nat n @ rest) = Some (n, rest)"
proof (induction n rule: enc_nat.induct)
  case (1 n)
  show ?case
  proof (cases "n < 128")
    case True
    then have "unat (of_nat n :: byte) = n"
      by (simp add: unat_of_nat)
    with True show ?thesis
      by (subst enc_nat.simps) simp
  next
    case False
    have "unat (of_nat (128 + n mod 128) :: byte) = (128 + n mod 128) mod 2 ^ 8"
      by (simp only: unat_of_nat) simp
    moreover have "128 + n mod 128 < (256 :: nat)" by simp
    ultimately have u: "unat (of_nat (128 + n mod 128) :: byte) = 128 + n mod 128"
      by simp
    from False 1 have "dec_nat (enc_nat (n div 128) @ rest) = Some (n div 128, rest)"
      by simp
    with False u show ?thesis
      by (subst enc_nat.simps) simp
  qed
qed

lemma dec_enc_int: "dec_int (enc_int i @ rest) = Some (i, rest)"
  by (simp add: dec_int_def enc_int_def dec_enc_nat)

lemma length_bytes_of_string: "length (bytes_of_string s) = length s"
  by (simp add: bytes_of_string_def)

lemma dec_enc_str: "dec_str (enc_str s @ rest) = Some (s, rest)"
  by (simp add: dec_str_def enc_str_def dec_enc_nat string_of_bytes_of_string
      length_bytes_of_string)

lemma dec_enc_session: "dec_session (enc_session s) = Inr s"
  by (simp add: dec_session_def enc_session_def dec_enc_int dec_enc_str [of _ "[]", simplified])

lemma dec_enc_secret: "dec_secret (enc_secret s) = Inr s"
  by (simp add: dec_secret_def enc_secret_def dec_enc_str
      dec_enc_int [of _ "[]", simplified] dec_enc_int)

lemma demo_json_ok: "json_lib_ok demo_json"
  by (auto simp: json_lib_ok_def demo_json_def dec_enc_session dec_enc_secret)

section \<open>Key-value store\<close>

lemma map_of_bucket_insert: "map_of (bucket_insert k v b) = (map_of b)(k \<mapsto> v)"
  by (induction b) (auto simp: fun_upd_twist)

lemma bucket_insert_keys: "kv \<in> set (bucket_insert k v b) \<Longrightarrow> fst kv = k \<or> kv \<in> set b"
  by (induction b) (auto split: if_splits)

lemma bucket_insert_sorted:
  "sorted_wrt (<) (map fst b) \<Longrightarrow> sorted_wrt (<) (map fst (bucket_insert k v b))"
proof (induction b)
  case Nil
  then show ?case by simp
next
  case (Cons kv b)
  obtain k' v' where kv: "kv = (k', v')" by (cases kv)
  from Cons kv show ?case
    by (auto dest!: bucket_insert_keys)
qed

lemma BoltStore_Put_None:
  assumes "BoltStore_Put bkt k v d = (None, d1)"
  shows "\<exists>b. opened d \<and> buckets d bkt = Some b
           \<and> d1 = d\<lparr>buckets := (buckets d)(bkt \<mapsto> bucket_insert k v b)\<rparr>"
  using assms
  by (auto simp: BoltStore_Put_def db_Update_def bucket_Put_def
           split: if_splits option.splits sum.splits prod.splits)

lemma BoltStore_Get_after_Put:
  assumes "BoltStore_Put bkt k v d = (None, d1)"
  shows "BoltStore_Get bkt k' d1 = (if k' = k then Inr v else BoltStore_Get bkt k' d)"
proof -
  from BoltStore_Put_None [OF assms] obtain b where
    "opened d" "buckets d bkt = Some b"
    "d1 = d\<lparr>buckets := (buckets d)(bkt \<mapsto> bucket_insert k v b)\<rparr>"
    by blast
  then show ?thesis
    by (simp add: BoltStore_Get_def db_View_def bucket_Get_def map_of_bucket_insert)
qed

lemma BoltStore_Put_succeeds:
  assumes "opened d" and "buckets d bkt = Some b" and "k \<noteq> []" and "length k \<le> 32768"
    and "length v \<le> 2147483646"
  shows "fst (BoltStore_Put bkt k v d) = None"
  using assms by (simp add: BoltStore_Put_def db_Update_def bucket_Put_def)

lemma bucket_ForEach_keys:
  "bucket_ForEach (\<lambda>k v keys. (None, keys @ [k])) b acc = (None, acc @ map fst b)"
  by (induction b arbitrary: acc) auto

lemma BoltStore_ListKeys_bucket:
  "opened d \<Longrightarrow> buckets d bkt = Some b \<Longrightarrow> BoltStore_ListKeys bkt d = Inr (map fst b)"
  by (simp add: BoltStore_ListKeys_def db_View_def bucket_ForEach_keys)

section \<open>Encrypted record store\<close>

lemma EncryptedRepository_Get_world:
  "EncryptedRepository_Get J r k w = (res, w1) \<Longrightarrow> \<exists>l. w1 = w\<lparr>cipher_log := l\<rparr>"
  by (auto simp: EncryptedRepository_Get_def Vault_Decrypt_def call_Decrypt_def
           Vault_IsUnlocked_def
           split: if_splits sum.splits prod.splits intro: exI [of _ "cipher_log w"])

lemma EncryptedRepository_Get_log:
  "fst (EncryptedRepository_Get J r k (w\<lparr>cipher_log := l\<rparr>)) = fst (EncryptedRepository_Get J r k w)"
  by (auto simp: EncryptedRepository_Get_def Vault_Decrypt_def call_Decrypt_def
           Vault_IsUnlocked_def
           split: if_splits sum.splits prod.splits)

lemma List_loop_all_readable:
  assumes "\<forall>k \<in> set ks. \<exists>s. fst (EncryptedRepository_Get J r k w) = Inr s"
  shows "\<exists>secrets. fst (List_loop J r ks acc (w\<lparr>cipher_log := l\<rparr>)) = Inr (acc @ secrets)
           \<and> list_all2 (\<lambda>k s. fst (EncryptedRepository_Get J r k w) = Inr s) ks secrets"
  using assms
proof (induction ks arbitrary: acc l)
  case Nil
  then show ?case by simp
next
  case (Cons k ks)
  from Cons.prems obtain s where s: "fst (EncryptedRepository_Get J r k w) = Inr s"
    by auto
  obtain res w1 where g: "EncryptedRepository_Get J r k (w\<lparr>cipher_log := l\<rparr>) = (res, w1)"
    by (cases "EncryptedRepository_Get J r k (w\<lparr>cipher_log := l\<rparr>)")
  from g s have res: "res = Inr s"
    using EncryptedRepository_Get_log [where J = J and r = r and k = k and w = w and l = l] by simp
  from EncryptedRepository_Get_world [OF g] obtain l1 where w1: "w1 = w\<lparr>cipher_log := l1\<rparr>"
    by auto
  from Cons.prems have "\<forall>k \<in> set ks. \<exists>s. fst (EncryptedRepository_Get J r k w) = Inr s"
    by simp
  from Cons.IH [OF this, of "acc @ [s]" l1] obtain secrets where
    "fst (List_loop J r ks (acc @ [s]) (w\<lparr>cipher_log := l1\<rparr>)) = Inr ((acc @ [s]) @ secrets)"
    "list_all2 (\<lambda>k s. fst (EncryptedRepository_Get J r k w) = Inr s) ks secrets"
    by blast
  with g res w1 s show ?case
    by (intro exI [of _ "s # secrets"]) simp
qed

lemma List_loop_first_failure:
  assumes "\<forall>k' \<in> set ks1. \<exists>s. fst (EncryptedRepository_Get J r k' w) = Inr s"
    and "fst (EncryptedRepository_Get J r k w) = Inl e"
  shows "fst (List_loop J r (ks1 @ k # ks2) acc (w\<lparr>cipher_log := l\<rparr>))
           = Inl (Wrapped (''failed to load secret '' @ k) e)"
  using assms(1)
proof (induction ks1 arbitrary: acc l)
  case Nil
  obtain res w1 where g: "EncryptedRepository_Get J r k (w\<lparr>cipher_log := l\<rparr>) = (res, w1)"
    by (cases "EncryptedRepository_Get J r k (w\<lparr>cipher_log := l\<rparr>)")
  with assms(2) have "res = Inl e"
    using EncryptedRepository_Get_log [where J = J and r = r and k = k and w = w and l = l] by simp
  with g show ?case by simp
next
  case (Cons k1 ks1)
  from Cons.prems obtain s where s: "fst (EncryptedRepository_Get J r k1 w) = Inr s"
    by auto
  obtain res w1 where g: "EncryptedRepository_Get J r k1 (w\<lparr>cipher_log := l\<rparr>) = (res, w1)"
    by (cases "EncryptedRepository_Get J r k1 (w\<lparr>cipher_log := l\<rparr>)")
  from g s have res: "res = Inr s"
    using EncryptedRepository_Get_log [where J = J and r = r and k = k1 and w = w and l = l] by simp
  from EncryptedRepository_Get_world [OF g] obtain l1 where w1: "w1 = w\<lparr>cipher_log := l1\<rparr>"
    by auto
  from Cons.prems have "\<forall>k' \<in> set ks1. \<exists>s. fst (EncryptedRepository_Get J r k' w) = Inr s"
    by simp
  from Cons.IH [OF this, of "acc @ [s]" l1] g res w1 show ?case
    by simp
qed

lemma world_cipher_log_same: "w\<lparr>cipher_log := cipher_log w\<rparr> = w"
  by simp

text \<open>
  Claim C7. With the store open and the bucket present, \<^verbatim>\<open>List\<close> enumerates the keys of the
  bucket. If every key can be read, it returns one record per stored entry, in the order of
  the keys, each being what \<^verbatim>\<open>Get\<close> returns for that key. If some key cannot be read, it
  returns the error of the first such key (wrapped with the key's name) and no records.
\<close>

theorem List_all_or_nothing:
  assumes "opened (DB w)" and "buckets (DB w) (bucket r) = Some b"
  shows "BaseRepository_ListKeys r (DB w) = Inr (map fst b)
     \<and> ((\<forall>k \<in> set (map fst b). \<exists>s. fst (EncryptedRepository_Get J r k w) = Inr s) \<longrightarrow>
          (\<exists>secrets. fst (EncryptedRepository_List J r w) = Inr secrets
             \<and> list_all2 (\<lambda>kv s. fst (EncryptedRepository_Get J r (fst kv) w) = Inr s) b secrets))
     \<and> (\<forall>ks1 k ks2 e. map fst b = ks1 @ k # ks2
            \<and> (\<forall>k' \<in> set ks1. \<exists>s. fst (EncryptedRepository_Get J r k' w) = Inr s)
            \<and> fst (EncryptedRepository_Get J r k w) = Inl e \<longrightarrow>
          fst (EncryptedRepository_List J r w)
            = Inl (Wrapped (''failed to load secret '' @ k) e))"
proof (intro conjI impI allI)
  show keys: "BaseRepository_ListKeys r (DB w) = Inr (map fst b)"
    using assms by (simp add: BaseRepository_ListKeys_def BoltStore_ListKeys_bucket)
  have list: "EncryptedRepository_List J r w = List_loop J r (map fst b) [] (w\<lparr>cipher_log := cipher_log w\<rparr>)"
    by (simp add: EncryptedRepository_List_def keys)
  {
    assume "\<forall>k \<in> set (map fst b). \<exists>s. fst (EncryptedRepository_Get J r k w) = Inr s"
    from List_loop_all_readable [OF this, of "[]" "cipher_log w"] obtain secrets where
      "fst (List_loop J r (map fst b) [] (w\<lparr>cipher_log := cipher_log w\<rparr>)) = Inr secrets"
      "list_all2 (\<lambda>k s. fst (EncryptedRepository_Get J r k w) = Inr s) (map fst b) secrets"
      by auto
    then show "\<exists>secrets. fst (EncryptedRepository_List J r w) = Inr secrets
             \<and> list_all2 (\<lambda>kv s. fst (EncryptedRepository_Get J r (fst kv) w) = Inr s) b secrets"
      unfolding list by (auto simp: list_all2_map1)
  }
  {
    fix ks1 k ks2 e
    assume a: "map fst b = ks1 @ k # ks2
            \<and> (\<forall>k' \<in> set ks1. \<exists>s. fst (EncryptedRepository_Get J r k' w) = Inr s)
            \<and> fst (EncryptedRepository_Get J r k w) = Inl e"
    then have "fst (List_loop J r (ks1 @ k # ks2) [] (w\<lparr>cipher_log := cipher_log w\<rparr>))
           = Inl (Wrapped (''failed to load secret '' @ k) e)"
      by (intro List_loop_first_failure) auto
    with a show "fst (EncryptedRepository_List J r w)
            = Inl (Wrapped (''failed to load secret '' @ k) e)"
      unfolding list by simp
  }
qed

lemma length_string_of_bytes: "length (string_of_bytes b) = length b"
  by (simp add: string_of_bytes_def)

lemma enc_nat_nonempty: "enc_nat n \<noteq> []"
  by (subst enc_nat.simps) simp

lemma enc_secret_nonempty: "enc_secret s \<noteq> []"
  by (simp add: enc_secret_def enc_str_def enc_nat_nonempty)

lemma unlocked_world_simps:
  "unlocked (Vault unlocked_world)" "strategy (Vault unlocked_world) = mockCrypto"
  "opened (DB unlocked_world)" "buckets (DB unlocked_world) ''secrets'' = Some []"
  "buckets (DB unlocked_world) ''system'' = Some []"
  by (simp_all add: unlocked_world_def Vault_Unlock_def test_world_def NewVault_def)

lemma length_enc_secret_alice: "length (enc_secret alice) = 20"
  by (simp add: enc_secret_def alice_def enc_str_def enc_int_def enc_nat.simps
      length_bytes_of_string)

lemma ID_alice: "ID alice = ''id-1''"
  by (simp add: alice_def)

lemma Add_alice:
  "EncryptedRepository_Add demo_json secretsRepo alice unlocked_world
     = (Inr ''id-1'',
        unlocked_world
          \<lparr>cipher_log := [EncryptCall (replicate 32 7) (string_of_bytes (enc_secret alice))],
           DB := (DB unlocked_world)
             \<lparr>buckets := (buckets (DB unlocked_world))
                (''secrets'' \<mapsto> [(''id-1'',
                   bytes_of_string (''encrypted:'' @ string_of_bytes (enc_secret alice)))])\<rparr>\<rparr>)"
  apply (simp add: EncryptedRepository_Add_def Vault_IsUnlocked_def unlocked_world_simps
      demo_json_def Vault_Encrypt_def call_Encrypt_def mockCrypto_def secretsRepo_def
      BaseRepository_Put_def BoltStore_Put_def db_Update_def bucket_Put_def
      length_bytes_of_string length_string_of_bytes)
  apply (simp add: ID_alice length_enc_secret_alice unlocked_world_def Vault_Unlock_def
      test_world_def slice_bytes_def NewVault_def map_replicate_const)
  done

lemma alice_world_eq:
  "alice_world = unlocked_world
          \<lparr>cipher_log := [EncryptCall (replicate 32 7) (string_of_bytes (enc_secret alice))],
           DB := (DB unlocked_world)
             \<lparr>buckets := (buckets (DB unlocked_world))
                (''secrets'' \<mapsto> [(''id-1'',
                   bytes_of_string (''encrypted:'' @ string_of_bytes (enc_secret alice)))])\<rparr>\<rparr>"
  by (simp add: alice_world_def Add_alice)

lemma Get_alice:
  "fst (EncryptedRepository_Get demo_json secretsRepo ''id-1'' alice_world) = Inr alice"
  by (simp add: alice_world_eq EncryptedRepository_Get_def Vault_IsUnlocked_def
      unlocked_world_simps BaseRepository_Get_def BoltStore_Get_def db_View_def bucket_Get_def
      secretsRepo_def Vault_Decrypt_def call_Decrypt_def mockCrypto_def
      string_of_bytes_of_string bytes_of_string_of_bytes length_string_of_bytes
      enc_secret_nonempty demo_json_def dec_enc_secret)

lemma Get_corrupt:
  "fst (EncryptedRepository_Get demo_json secretsRepo ''bad'' corrupt_world)
     = Inl (Wrapped ''decrypt secret'' (ErrorString ''invalid ciphertext''))"
  by (simp add: corrupt_world_def EncryptedRepository_Get_def Vault_IsUnlocked_def
      unlocked_world_simps BaseRepository_Get_def BoltStore_Get_def db_View_def bucket_Get_def
      secretsRepo_def Vault_Decrypt_def call_Decrypt_def mockCrypto_def
      string_of_bytes_of_string)

theorem List_all_or_nothing_witness:
  "opened (DB alice_world)
   \<and> buckets (DB alice_world) (bucket secretsRepo)
       = Some [(''id-1'', bytes_of_string (''encrypted:'' @ string_of_bytes (enc_secret alice)))]
   \<and> fst (EncryptedRepository_List demo_json secretsRepo alice_world) = Inr [alice]
   \<and> opened (DB corrupt_world)
   \<and> buckets (DB corrupt_world) (bucket secretsRepo) = Some [(''bad'', bytes_of_string ''garbage'')]
   \<and> fst (EncryptedRepository_List demo_json secretsRepo corrupt_world)
       = Inl (Wrapped ''failed to load secret bad''
               (Wrapped ''decrypt secret'' (ErrorString ''invalid ciphertext'')))"
proof -
  let ?b = "[(''id-1'', bytes_of_string (''encrypted:'' @ string_of_bytes (enc_secret alice)))]"
  have o1: "opened (DB alice_world)"
    by (simp add: alice_world_eq unlocked_world_simps)
  have b1: "buckets (DB alice_world) (bucket secretsRepo) = Some ?b"
    by (simp add: alice_world_eq secretsRepo_def)
  have o2: "opened (DB corrupt_world)"
    by (simp add: corrupt_world_def unlocked_world_simps)
  have b2: "buckets (DB corrupt_world) (bucket secretsRepo)
      = Some [(''bad'', bytes_of_string ''garbage'')]"
    by (simp add: corrupt_world_def secretsRepo_def)
  from List_all_or_nothing [OF o1 b1, of demo_json] Get_alice
  have l1: "fst (EncryptedRepository_List demo_json secretsRepo alice_world) = Inr [alice]"
    by (auto simp: list_all2_Cons1)
  from List_all_or_nothing [OF o2 b2, of demo_json] Get_corrupt
  have l2: "fst (EncryptedRepository_List demo_json secretsRepo corrupt_world)
      = Inl (Wrapped (''failed to load secret '' @ ''bad'')
               (Wrapped ''decrypt secret'' (ErrorString ''invalid ciphertext'')))"
    by (elim conjE allE [of _ "[]"] allE [of _ "''bad''"]
          allE [of _ "Wrapped ''decrypt secret'' (ErrorString ''invalid ciphertext'')"])
       simp
  from o1 b1 l1 o2 b2 l2 show ?thesis by simp
qed

text \<open>
  Claim C10. On an unlocked vault, when \<^verbatim>\<open>Update\<close> returns nil it has passed to the cipher the
  JSON of the record with \<^verbatim>\<open>UpdatedAt\<close> set to the current time and every other field as
  supplied, and the store then holds the ciphertext under the record's \<^verbatim>\<open>ID\<close>. It returns nil
  whenever serialisation and encryption succeed and the store accepts the write; whether the
  key was stored before plays no part.
\<close>

theorem Update_upsert:
  assumes "unlocked (Vault w)"
  shows "(\<forall>w1. EncryptedRepository_Update J r now s w = (None, w1) \<longrightarrow>
            (\<exists>data enc. Marshal_Secret J (s\<lparr>UpdatedAt := now\<rparr>) = Inr data
               \<and> cipher_log w1 = cipher_log w
                     @ [EncryptCall (slice_bytes (mem w) (key (Vault w))) (string_of_bytes data)]
               \<and> fst (strategy_Encrypt (strategy (Vault w)) (slice_bytes (mem w) (key (Vault w)))
                        (string_of_bytes data) (entropy w)) = Inr enc
               \<and> BaseRepository_Get r (ID s) (DB w1) = Inr (bytes_of_string enc)))
       \<and> (\<forall>data enc rest b. Marshal_Secret J (s\<lparr>UpdatedAt := now\<rparr>) = Inr data
             \<and> strategy_Encrypt (strategy (Vault w)) (slice_bytes (mem w) (key (Vault w)))
                  (string_of_bytes data) (entropy w) = (Inr enc, rest)
             \<and> opened (DB w) \<and> buckets (DB w) (bucket r) = Some b
             \<and> ID s \<noteq> [] \<and> length (ID s) \<le> 32768 \<and> length enc \<le> 2147483646
           \<longrightarrow> fst (EncryptedRepository_Update J r now s w) = None)"
proof (intro conjI allI impI)
  fix w1
  assume u: "EncryptedRepository_Update J r now s w = (None, w1)"
  from u assms obtain data where m: "Marshal_Secret J (s\<lparr>UpdatedAt := now\<rparr>) = Inr data"
    by (cases "Marshal_Secret J (s\<lparr>UpdatedAt := now\<rparr>)")
       (auto simp: EncryptedRepository_Update_def Vault_IsUnlocked_def Let_def)
  obtain res rest where
    e: "strategy_Encrypt (strategy (Vault w)) (slice_bytes (mem w) (key (Vault w)))
          (string_of_bytes data) (entropy w) = (res, rest)"
    by (cases "strategy_Encrypt (strategy (Vault w)) (slice_bytes (mem w) (key (Vault w)))
          (string_of_bytes data) (entropy w)")
  let ?w' = "w\<lparr>entropy := rest, cipher_log := cipher_log w
               @ [EncryptCall (slice_bytes (mem w) (key (Vault w))) (string_of_bytes data)]\<rparr>"
  from assms e have ve: "Vault_Encrypt (string_of_bytes data) w = (res, ?w')"
    by (simp add: Vault_Encrypt_def call_Encrypt_def)
  from u assms m ve obtain enc where res: "res = Inr enc"
    by (cases res) (auto simp: EncryptedRepository_Update_def Vault_IsUnlocked_def Let_def)
  obtain err d where p: "BoltStore_Put (bucket r) (ID s) (bytes_of_string enc) (DB w) = (err, d)"
    by (cases "BoltStore_Put (bucket r) (ID s) (bytes_of_string enc) (DB w)")
  from u assms m ve res p have "err = None" and w1: "w1 = ?w'\<lparr>DB := d\<rparr>"
    by (auto simp: EncryptedRepository_Update_def Vault_IsUnlocked_def Let_def
          BaseRepository_Put_def)
  with p have "BoltStore_Get (bucket r) (ID s) d = Inr (bytes_of_string enc)"
    using BoltStore_Get_after_Put [of "bucket r" "ID s" "bytes_of_string enc" "DB w" d "ID s"]
    by simp
  with m e res w1 show "\<exists>data enc. Marshal_Secret J (s\<lparr>UpdatedAt := now\<rparr>) = Inr data
               \<and> cipher_log w1 = cipher_log w
                     @ [EncryptCall (slice_bytes (mem w) (key (Vault w))) (string_of_bytes data)]
               \<and> fst (strategy_Encrypt (strategy (Vault w)) (slice_bytes (mem w) (key (Vault w)))
                        (string_of_bytes data) (entropy w)) = Inr enc
               \<and> BaseRepository_Get r (ID s) (DB w1) = Inr (bytes_of_string enc)"
    by (intro exI [of _ data] exI [of _ enc]) (simp add: BaseRepository_Get_def)
next
  fix data enc rest b
  assume a: "Marshal_Secret J (s\<lparr>UpdatedAt := now\<rparr>) = Inr data
             \<and> strategy_Encrypt (strategy (Vault w)) (slice_bytes (mem w) (key (Vault w)))
                  (string_of_bytes data) (entropy w) = (Inr enc, rest)
             \<and> opened (DB w) \<and> buckets (DB w) (bucket r) = Some b
             \<and> ID s \<noteq> [] \<and> length (ID s) \<le> 32768 \<and> length enc \<le> 2147483646"
  then have "fst (BoltStore_Put (bucket r) (ID s) (bytes_of_string enc) (DB w)) = None"
    by (intro BoltStore_Put_succeeds [of _ _ b]) (simp_all add: length_bytes_of_string)
  then obtain d where "BoltStore_Put (bucket r) (ID s) (bytes_of_string enc) (DB w) = (None, d)"
    by (cases "BoltStore_Put (bucket r) (ID s) (bytes_of_string enc) (DB w)") simp
  with a assms show "fst (EncryptedRepository_Update J r now s w) = None"
    by (simp add: EncryptedRepository_Update_def Vault_IsUnlocked_def Let_def
        Vault_Encrypt_def call_Encrypt_def BaseRepository_Put_def)
qed

lemma length_enc_secret_alice9: "length (enc_secret (alice\<lparr>UpdatedAt := 9\<rparr>)) = 20"
  by (simp add: enc_secret_def alice_def enc_str_def enc_int_def enc_nat.simps
      length_bytes_of_string)

theorem Update_upsert_witness:
  "unlocked (Vault unlocked_world)
   \<and> BaseRepository_Get secretsRepo (ID alice) (DB unlocked_world)
       = Inl (ErrorString ''key not found'')
   \<and> fst (EncryptedRepository_Update demo_json secretsRepo 9 alice unlocked_world) = None
   \<and> BaseRepository_Get secretsRepo (ID alice)
        (DB (snd (EncryptedRepository_Update demo_json secretsRepo 9 alice unlocked_world)))
       = Inr (bytes_of_string
               (''encrypted:'' @ string_of_bytes (enc_secret (alice\<lparr>UpdatedAt := 9\<rparr>))))"
proof -
  let ?k = "slice_bytes (mem unlocked_world) (key (Vault unlocked_world))"
  let ?data = "enc_secret (alice\<lparr>UpdatedAt := 9\<rparr>)"
  let ?enc = "''encrypted:'' @ string_of_bytes ?data"
  have h: "unlocked (Vault unlocked_world)"
    by (simp add: unlocked_world_simps)
  have before: "BaseRepository_Get secretsRepo (ID alice) (DB unlocked_world)
       = Inl (ErrorString ''key not found'')"
    by (simp add: BaseRepository_Get_def BoltStore_Get_def db_View_def bucket_Get_def
        secretsRepo_def unlocked_world_simps)
  have m: "Marshal_Secret demo_json (alice\<lparr>UpdatedAt := 9\<rparr>) = Inr ?data"
    by (simp add: demo_json_def)
  have e: "strategy_Encrypt (strategy (Vault unlocked_world)) ?k (string_of_bytes ?data)
             (entropy unlocked_world) = (Inr ?enc, entropy unlocked_world)"
    by (simp add: unlocked_world_simps mockCrypto_def)
  have ok: "fst (EncryptedRepository_Update demo_json secretsRepo 9 alice unlocked_world) = None"
    using Update_upsert [OF h, of demo_json secretsRepo 9 alice] m e
    by (elim conjE allE [of _ ?data] allE [of _ ?enc] allE [of _ "entropy unlocked_world"]
          allE [of _ "[]"])
       (simp add: unlocked_world_simps secretsRepo_def ID_alice length_string_of_bytes
          length_enc_secret_alice9)
  then obtain w1 where
    u: "EncryptedRepository_Update demo_json secretsRepo 9 alice unlocked_world = (None, w1)"
    by (cases "EncryptedRepository_Update demo_json secretsRepo 9 alice unlocked_world") simp
  from Update_upsert [OF h, of demo_json secretsRepo 9 alice] u m e
  have "BaseRepository_Get secretsRepo (ID alice) (DB w1) = Inr (bytes_of_string ?enc)"
    by auto
  with h before ok u show ?thesis by simp
qed

text \<open>
  Claim C6 fails on the store the program uses: deleting an id that is not stored returns nil,
  not a not-found error, because \<^verbatim>\<open>BoltStore.Delete\<close> passes the key to the bucket without
  looking whether it is there.
\<close>

theorem Delete_missing_id_returns_nil:
  "BaseRepository_Get secretsRepo ''non-existent'' (DB alice_world)
     = Inl (ErrorString ''key not found'')
   \<and> fst (EncryptedRepository_Delete secretsRepo ''non-existent'' alice_world) = None"
  by (simp add: alice_world_eq EncryptedRepository_Delete_def BaseRepository_Delete_def
      BoltStore_Delete_def db_Update_def bucket_Delete_def BaseRepository_Get_def
      BoltStore_Get_def db_View_def bucket_Get_def secretsRepo_def unlocked_world_simps)

end
